theory Spec2Isabelle
  imports Complex_Main "HOL-Library.Product_Lexorder" "HOL-Library.Char_ord"
    "HOL-Library.List_Lexorder"
begin

section \<open>Data model\<close>

text \<open>
  Amounts are exact rationals: the arithmetic of the metric functions is modelled without
  rounding and without overflow. The two special floating-point values that the source
  writes down itself (\<^verbatim>\<open>np.nan\<close> and \<^verbatim>\<open>float('inf')\<close>) are kept as constructors of
  \<open>pyfloat\<close>. A text is a list of characters with code points below 256; the character
  classes of the patterns (\<^verbatim>\<open>\s\<close>, \<^verbatim>\<open>\d\<close>, \<^verbatim>\<open>\w\<close>) are those of Python on
  that range (\<^verbatim>\<open>str.lower\<close> and \<^verbatim>\<open>str.upper\<close> on the unaccented letters).
\<close>

datatype pyfloat = Num rat | PosInf | NaN

datatype pyerror = ValueErr | KeyErr | TypeErr

text \<open>A calendar date; a month-start timestamp is the date with day 1, and a period its
  (year, month) pair, ordered lexicographically.\<close>

record date =
  d_year :: int
  d_month :: int
  d_day :: int

type_synonym period = "int \<times> int"

definition to_period :: "date \<Rightarrow> period" where
  "to_period d = (d_year d, d_month d)"

definition to_timestamp :: "period \<Rightarrow> date" where
  "to_timestamp p = \<lparr>d_year = fst p, d_month = snd p, d_day = 1\<rparr>"

text \<open>\<^verbatim>\<open>pd.to_datetime(col).dt.to_period('M').dt.to_timestamp()\<close>\<close>

definition month_start :: "date \<Rightarrow> date" where
  "month_start d = to_timestamp (to_period d)"

text \<open>Ledger rows (actuals, budget), fx rows and cash rows as the ingestion layer hands
  them over.\<close>

record row =
  date :: date
  entity :: string
  account :: string
  currency :: string
  amount :: rat

record fx_row =
  fx_date :: date
  fx_currency :: string
  fx_rate_to_usd :: rat

record cash_row =
  cash_date :: date
  cash_entity :: string
  cash_currency :: string
  cash :: rat

record dataset =
  actuals :: "row list"
  budget :: "row list"
  fx :: "fx_row list"
  cash_tbl :: "cash_row list"

text \<open>The frame after \<^verbatim>\<open>_merge_fx\<close> has two more columns, and after
  \<^verbatim>\<open>_normalize_accounts\<close> one more.\<close>

record usd_row = row +
  rate_to_usd :: rat
  amount_usd :: rat

record norm_row = usd_row +
  account_norm :: string

section \<open>Strings\<close>

text \<open>The accented capital letters of Latin-1 and their small letters.\<close>

definition upper_latin1 :: "char list" where
  "upper_latin1 =
     [CHR 0xC0, CHR 0xC1, CHR 0xC2, CHR 0xC3, CHR 0xC4, CHR 0xC5, CHR 0xC6, CHR 0xC7, CHR 0xC8,
      CHR 0xC9, CHR 0xCA, CHR 0xCB, CHR 0xCC, CHR 0xCD, CHR 0xCE, CHR 0xCF, CHR 0xD0, CHR 0xD1,
      CHR 0xD2, CHR 0xD3, CHR 0xD4, CHR 0xD5, CHR 0xD6, CHR 0xD8, CHR 0xD9, CHR 0xDA, CHR 0xDB,
      CHR 0xDC, CHR 0xDD, CHR 0xDE]"

definition lower_latin1 :: "char list" where
  "lower_latin1 =
     [CHR 0xE0, CHR 0xE1, CHR 0xE2, CHR 0xE3, CHR 0xE4, CHR 0xE5, CHR 0xE6, CHR 0xE7, CHR 0xE8,
      CHR 0xE9, CHR 0xEA, CHR 0xEB, CHR 0xEC, CHR 0xED, CHR 0xEE, CHR 0xEF, CHR 0xF0, CHR 0xF1,
      CHR 0xF2, CHR 0xF3, CHR 0xF4, CHR 0xF5, CHR 0xF6, CHR 0xF8, CHR 0xF9, CHR 0xFA, CHR 0xFB,
      CHR 0xFC, CHR 0xFD, CHR 0xFE]"

text \<open>\<^verbatim>\<open>str.lower\<close> on one character, for the letters A to Z. Python also lowers the
  accented capitals; no pattern of the planner tells an accented capital from its small
  letter, so the matches are the same.\<close>

definition lower_char :: "char \<Rightarrow> char" where
  "lower_char c =
     (case map_of (zip ''ABCDEFGHIJKLMNOPQRSTUVWXYZ'' ''abcdefghijklmnopqrstuvwxyz'') c of
        Some d \<Rightarrow> d | None \<Rightarrow> c)"

text \<open>\<^verbatim>\<open>str.upper\<close> on one character, for the letters a to z; it is used for chart labels
  only.\<close>

definition upper_char :: "char \<Rightarrow> char" where
  "upper_char c =
     (case map_of (zip ''abcdefghijklmnopqrstuvwxyz'' ''ABCDEFGHIJKLMNOPQRSTUVWXYZ'') c of
        Some d \<Rightarrow> d | None \<Rightarrow> c)"

definition lower :: "string \<Rightarrow> string" where
  "lower s = map lower_char s"

definition upper :: "string \<Rightarrow> string" where
  "upper s = map upper_char s"

definition startswith :: "string \<Rightarrow> string \<Rightarrow> bool" where
  "startswith s p = (take (length p) s = p)"

section \<open>tools.py\<close>

definition revenue_aliases :: "string list" where
  "revenue_aliases = [''revenue'', ''total revenue'']"

definition cogs_aliases :: "string list" where
  "cogs_aliases = [''cogs'', ''cost of goods sold'']"

definition opex_prefix :: string where
  "opex_prefix = ''opex:''"

text \<open>\<^verbatim>\<open>_normalize_accounts\<close>\<close>

definition normalize_row :: "usd_row \<Rightarrow> norm_row" where
  "normalize_row r =
     \<lparr>date = date r, entity = entity r, account = account r,
      currency = currency r, amount = amount r,
      rate_to_usd = rate_to_usd r, amount_usd = amount_usd r,
      account_norm = lower (account r)\<rparr>"

definition normalize_accounts :: "usd_row list \<Rightarrow> norm_row list" where
  "normalize_accounts df = map normalize_row df"

text \<open>\<^verbatim>\<open>_merge_fx\<close>: a left join on (month-start date, currency). A ledger row with no
  partner in the fx table keeps one output row, whose missing rate is filled with 1; a row
  with partners yields one output row per partner.\<close>

definition fx_matches :: "fx_row list \<Rightarrow> row \<Rightarrow> fx_row list" where
  "fx_matches fxt r =
     filter (\<lambda>f. month_start (fx_date f) = month_start (date r)
                 \<and> fx_currency f = currency r) fxt"

definition with_rate :: "row \<Rightarrow> rat \<Rightarrow> usd_row" where
  "with_rate r k =
     \<lparr>date = month_start (date r), entity = entity r, account = account r,
      currency = currency r, amount = amount r,
      rate_to_usd = k, amount_usd = amount r * k\<rparr>"

definition merge_row :: "fx_row list \<Rightarrow> row \<Rightarrow> usd_row list" where
  "merge_row fxt r =
     (case fx_matches fxt r of
        [] \<Rightarrow> [with_rate r 1]
      | f # fs \<Rightarrow> map (\<lambda>g. with_rate r (fx_rate_to_usd g)) (f # fs))"

definition merge_fx :: "row list \<Rightarrow> fx_row list \<Rightarrow> usd_row list" where
  "merge_fx df fxt = concat (map (merge_row fxt) df)"

text \<open>\<^verbatim>\<open>latest_month_in_actuals\<close>; every row carries a date, so the branch for a
  missing maximum does not arise.\<close>

definition latest_month_in_actuals :: "row list \<Rightarrow> date option" where
  "latest_month_in_actuals acts =
     (if acts = [] then None
      else Some (to_timestamp (Max (set (map (\<lambda>r. to_period (date r)) acts)))))"

text \<open>\<^verbatim>\<open>pd.Timestamp(year=year, month=month, day=1)\<close> raises unless the month is a calendar
  month and the first of that month lies inside the library's timestamp range
  (1677-09-21 to 2262-04-11).\<close>

definition pd_Timestamp :: "int \<Rightarrow> int \<Rightarrow> pyerror + date" where
  "pd_Timestamp y m =
     (if 1 \<le> m \<and> m \<le> 12 \<and> (1677, 10) \<le> (y, m) \<and> (y, m) \<le> (2262, 4)
      then Inr (to_timestamp (y, m)) else Inl ValueErr)"

definition isin :: "string \<Rightarrow> string list \<Rightarrow> bool" where
  "isin s xs = (s \<in> set xs)"

text \<open>\<^verbatim>\<open>_sum_by_account\<close>\<close>

definition sum_by_account :: "norm_row list \<Rightarrow> int \<Rightarrow> int \<Rightarrow> string \<Rightarrow> pyerror + rat" where
  "sum_by_account df y m account_key =
     (case pd_Timestamp y m of
        Inl e \<Rightarrow> Inl e
      | Inr ts \<Rightarrow>
          (let dt = month_start ts in
           if account_key = ''opex'' then
             Inr (sum_list (map amount_usd
               (filter (\<lambda>r. date r = dt \<and> startswith (account_norm r) opex_prefix) df)))
           else if account_key = ''revenue'' then
             Inr (sum_list (map amount_usd
               (filter (\<lambda>r. date r = dt \<and> isin (account_norm r) revenue_aliases) df)))
           else if account_key = ''cogs'' then
             Inr (sum_list (map amount_usd
               (filter (\<lambda>r. date r = dt \<and> isin (account_norm r) cogs_aliases) df)))
           else Inr 0))"

text \<open>Charts are plain data: the traces added to the figure, without the layout titles.\<close>

datatype trace =
    BarLabels "string list" "rat list"
  | BarPeriods "period list" "rat list"
  | ScatterPeriods "period list" "pyfloat list"
  | CashPoints "period list" "rat list"
  | Pie "string list" "rat list"

type_synonym chart = "trace list"

record rvb_result =
  actual_usd :: rat
  budget_usd :: rat
  variance_usd :: rat
  variance_pct :: pyfloat
  rvb_chart :: chart

definition isnan :: "pyfloat \<Rightarrow> bool" where
  "isnan v = (v = NaN)"

text \<open>\<^verbatim>\<open>revenue_vs_budget_usd\<close>\<close>

definition revenue_vs_budget_usd :: "dataset \<Rightarrow> int \<Rightarrow> int \<Rightarrow> pyerror + rvb_result" where
  "revenue_vs_budget_usd dfs y m =
     (let acts = normalize_accounts (merge_fx (actuals dfs) (fx dfs));
          budg = normalize_accounts (merge_fx (budget dfs) (fx dfs))
      in case sum_by_account acts y m ''revenue'' of
           Inl e \<Rightarrow> Inl e
         | Inr a \<Rightarrow>
            (case sum_by_account budg y m ''revenue'' of
               Inl e \<Rightarrow> Inl e
             | Inr b \<Rightarrow>
                (let variance = a - b;
                     vpct = (if b \<noteq> 0 then Num (variance / b * 100) else NaN)
                 in Inr \<lparr>actual_usd = a, budget_usd = b, variance_usd = variance,
                         variance_pct = (if \<not> isnan vpct then vpct else Num 0),
                         rvb_chart = [BarLabels [''Actual'', ''Budget''] [a, b]]\<rparr>)))"

text \<open>Grouped sums: \<^verbatim>\<open>df[mask].groupby('ym')['amount_usd'].sum()\<close>, a series indexed by the
  sorted distinct periods of the selected rows.\<close>

definition ym :: "'a usd_row_scheme \<Rightarrow> period" where
  "ym r = to_period (date r)"

definition groupby_sum :: "('a usd_row_scheme \<Rightarrow> bool) \<Rightarrow> 'a usd_row_scheme list
    \<Rightarrow> (period \<times> rat) list" where
  "groupby_sum P df =
     (let sel = filter P df
      in map (\<lambda>k. (k, sum_list (map amount_usd (filter (\<lambda>r. ym r = k) sel))))
             (sort (remdups (map ym sel))))"

text \<open>\<^verbatim>\<open>pd.DataFrame({...})\<close> of several series aligns them on the sorted union of
  their indexes; \<^verbatim>\<open>fillna(0.0)\<close> fills the holes.\<close>

definition union_index :: "(period \<times> rat) list list \<Rightarrow> period list" where
  "union_index ss = sort (remdups (concat (map (map fst) ss)))"

definition col0 :: "(period \<times> rat) list \<Rightarrow> period \<Rightarrow> rat" where
  "col0 s k = (case map_of s k of Some v \<Rightarrow> v | None \<Rightarrow> 0)"

definition is_revenue :: "norm_row \<Rightarrow> bool" where
  "is_revenue r = isin (account_norm r) revenue_aliases"

definition is_cogs :: "norm_row \<Rightarrow> bool" where
  "is_cogs r = isin (account_norm r) cogs_aliases"

definition is_opex :: "norm_row \<Rightarrow> bool" where
  "is_opex r = startswith (account_norm r) opex_prefix"

record gm_row =
  gm_ym :: period
  gm_revenue :: rat
  gm_cogs :: rat
  gm :: rat
  gm_pct :: pyfloat

text \<open>\<^verbatim>\<open>_series_gm\<close>\<close>

definition series_gm :: "norm_row list \<Rightarrow> gm_row list" where
  "series_gm dfa =
     (let rev = groupby_sum is_revenue dfa;
          cogs = groupby_sum is_cogs dfa;
          s = map (\<lambda>k. \<lparr>gm_ym = k, gm_revenue = col0 rev k, gm_cogs = col0 cogs k,
                          gm = col0 rev k - col0 cogs k,
                          gm_pct = (if col0 rev k \<noteq> 0
                                    then Num ((col0 rev k - col0 cogs k) / col0 rev k * 100)
                                    else NaN)\<rparr>)
                  (union_index [rev, cogs])
      in filter (\<lambda>r. \<not> isnan (gm_pct r)) s)"

record ebitda_row =
  e_ym :: period
  e_revenue :: rat
  e_cogs :: rat
  e_opex :: rat
  ebitda :: rat

text \<open>\<^verbatim>\<open>_series_ebitda\<close>\<close>

definition series_ebitda :: "norm_row list \<Rightarrow> ebitda_row list" where
  "series_ebitda dfa =
     (let rev = groupby_sum is_revenue dfa;
          cogs = groupby_sum is_cogs dfa;
          opex = groupby_sum is_opex dfa
      in map (\<lambda>k. \<lparr>e_ym = k, e_revenue = col0 rev k, e_cogs = col0 cogs k,
                     e_opex = col0 opex k,
                     ebitda = col0 rev k - col0 cogs k - col0 opex k\<rparr>)
             (union_index [rev, cogs, opex]))"

text \<open>\<^verbatim>\<open>DataFrame.tail(n)\<close>: the last \<open>n\<close> rows; for a negative \<open>n\<close>, all rows but the
  first \<open>-n\<close>.\<close>

definition pd_tail :: "int \<Rightarrow> 'a list \<Rightarrow> 'a list" where
  "pd_tail n xs =
     (if 0 \<le> n then drop (length xs - nat n) xs else drop (nat (- n)) xs)"

subsection \<open>Number formatting\<close>

definition digit_char :: "nat \<Rightarrow> char" where
  "digit_char n = ''0123456789'' ! (n mod 10)"

function show_nat :: "nat \<Rightarrow> string" where
  "show_nat n = (if n < 10 then [digit_char n] else show_nat (n div 10) @ [digit_char n])"
  by pat_completeness auto
termination
  by (relation "measure id") auto

declare show_nat.simps [simp del]

text \<open>\<^verbatim>\<open>str(i)\<close> and \<^verbatim>\<open>format(i, '02d')\<close> of an integer.\<close>

definition show_int :: "int \<Rightarrow> string" where
  "show_int i = (if i < 0 then ''-'' @ show_nat (nat (- i)) else show_nat (nat i))"

definition fmt_02d :: "int \<Rightarrow> string" where
  "fmt_02d i =
     (if i < 0 then ''-'' @ show_nat (nat (- i))
      else if i < 10 then ''0'' @ show_nat (nat i) else show_nat (nat i))"

definition round_half_even :: "rat \<Rightarrow> int" where
  "round_half_even x =
     (let f = \<lfloor>x\<rfloor>; d = x - of_int f
      in if d < 1 / 2 then f else if 1 / 2 < d then f + 1
         else if even f then f else f + 1)"

fun group3_rev :: "string \<Rightarrow> string" where
  "group3_rev (a # b # c # d # rest) = a # b # c # CHR '','' # group3_rev (d # rest)"
| "group3_rev xs = xs"

definition group3 :: "string \<Rightarrow> string" where
  "group3 s = rev (group3_rev (rev s))"

definition zero_pad :: "nat \<Rightarrow> string \<Rightarrow> string" where
  "zero_pad w s = replicate (w - length s) CHR ''0'' @ s"

text \<open>\<^verbatim>\<open>format(x, '.<prec>f')\<close>, with the thousands separator of \<^verbatim>\<open>','\<close> when \<open>grp\<close>:
  the value is rounded half-to-even at \<open>prec\<close> decimals and keeps its sign.\<close>

definition fmt_fixed :: "nat \<Rightarrow> bool \<Rightarrow> rat \<Rightarrow> string" where
  "fmt_fixed prec grp x =
     (let n = nat (round_half_even (\<bar>x\<bar> * 10 ^ prec));
          ip = show_nat (n div 10 ^ prec);
          fp = zero_pad prec (show_nat (n mod 10 ^ prec))
      in (if x < 0 then ''-'' else [])
         @ (if grp then group3 ip else ip)
         @ (if prec = 0 then [] else ''.'' @ fp))"

definition fmt_float :: "nat \<Rightarrow> bool \<Rightarrow> pyfloat \<Rightarrow> string" where
  "fmt_float prec grp v =
     (case v of Num x \<Rightarrow> fmt_fixed prec grp x | PosInf \<Rightarrow> ''inf'' | NaN \<Rightarrow> ''nan'')"

text \<open>\<^verbatim>\<open>d.strftime('%Y-%m')\<close>\<close>

definition strftime_ym :: "period \<Rightarrow> string" where
  "strftime_ym p = show_int (fst p) @ ''-'' @ fmt_02d (snd p)"

subsection \<open>The metric functions, continued\<close>

record gm_result =
  gm_chart :: chart
  series :: "(string \<times> pyfloat) list"

text \<open>\<^verbatim>\<open>gross_margin_trend_pct\<close>\<close>

definition gross_margin_trend_pct :: "dataset \<Rightarrow> int \<Rightarrow> gm_result" where
  "gross_margin_trend_pct dfs last_n =
     (let acts = normalize_accounts (merge_fx (actuals dfs) (fx dfs));
          s = pd_tail last_n (series_gm acts)
      in \<lparr>gm_chart = [ScatterPeriods (map gm_ym s) (map gm_pct s)],
          series = map (\<lambda>r. (strftime_ym (gm_ym r), gm_pct r)) s\<rparr>)"

text \<open>\<^verbatim>\<open>_series_opex\<close>: sums per (period, account), sorted by that key.\<close>

definition series_opex :: "norm_row list \<Rightarrow> (period \<times> string \<times> rat) list" where
  "series_opex dfa =
     (let sel = filter is_opex dfa
      in map (\<lambda>k. (fst k, snd k,
                    sum_list (map amount_usd
                      (filter (\<lambda>r. (ym r, account_norm r) = k) sel))))
             (sort (remdups (map (\<lambda>r. (ym r, account_norm r)) sel))))"

text \<open>\<^verbatim>\<open>s.replace(old, '')\<close> for a non-empty \<open>old\<close>.\<close>

function str_remove :: "string \<Rightarrow> string \<Rightarrow> string" where
  "str_remove old [] = []"
| "str_remove old (c # cs) =
     (if old \<noteq> [] \<and> startswith (c # cs) old
      then str_remove old (drop (length old) (c # cs))
      else c # str_remove old cs)"
  by pat_completeness auto
termination
  by (relation "measure (\<lambda>(old, s). length s)") auto

text \<open>\<^verbatim>\<open>opex_breakdown_usd\<close>\<close>

definition opex_breakdown_usd :: "dataset \<Rightarrow> int \<Rightarrow> int \<Rightarrow> pyerror + chart" where
  "opex_breakdown_usd dfs y m =
     (let acts = normalize_accounts (merge_fx (actuals dfs) (fx dfs));
          s = series_opex acts
      in case pd_Timestamp y m of
           Inl e \<Rightarrow> Inl e
         | Inr ts \<Rightarrow>
            (let mm = filter (\<lambda>t. fst t = to_period (month_start ts)) s
             in Inr (if mm \<noteq> []
                     then [Pie (map (\<lambda>t. upper (str_remove ''opex:'' (fst (snd t)))) mm)
                               (map (\<lambda>t. snd (snd t)) mm)]
                     else [])))"

record runway_result =
  months :: pyfloat
  cash_usd :: rat
  avg_burn_usd :: rat
  runway_chart :: chart

text \<open>The cash frame of \<^verbatim>\<open>cash_runway_months\<close> before the merge: dates at month start,
  column \<^verbatim>\<open>cash\<close> renamed to \<^verbatim>\<open>amount\<close>; it has no account column.\<close>

definition cash_to_row :: "cash_row \<Rightarrow> row" where
  "cash_to_row c =
     \<lparr>date = month_start (cash_date c), entity = cash_entity c, account = [],
      currency = cash_currency c, amount = cash c\<rparr>"

definition mean :: "rat list \<Rightarrow> rat" where
  "mean xs = sum_list xs / of_nat (length xs)"

text \<open>\<^verbatim>\<open>cash_runway_months\<close>; \<open>None\<close> is the source's \<^verbatim>\<open>None\<close>. The unused local
  \<^verbatim>\<open>latest_cash\<close> is left out.\<close>

definition cash_runway_months :: "dataset \<Rightarrow> runway_result option" where
  "cash_runway_months dfs =
     (let acts = normalize_accounts (merge_fx (actuals dfs) (fx dfs));
          e = pd_tail 3 (series_ebitda acts)
      in if e = [] then None
         else
          (let avg_burn = - mean (map ebitda e);
               cashf = merge_fx (map cash_to_row (cash_tbl dfs)) (fx dfs);
               total_cash = pd_tail 1 (groupby_sum (\<lambda>r. True) cashf);
               cash_total = (case total_cash of [] \<Rightarrow> 0 | kv # rest \<Rightarrow> snd kv);
               mths = (if avg_burn \<le> 0 then PosInf else Num (cash_total / avg_burn))
           in Some \<lparr>months = mths, cash_usd = cash_total, avg_burn_usd = avg_burn,
                    runway_chart =
                      BarPeriods (map e_ym e) (map ebitda e)
                      # (if cashf \<noteq> []
                         then [CashPoints (map fst total_cash) (map snd total_cash)]
                         else [])\<rparr>))"

section \<open>Regular expressions\<close>

text \<open>
  The fragment of Python's \<^verbatim>\<open>re\<close> that the planner uses, with the backtracking semantics of
  the library: a matcher returns every way to match at the current position, in the order
  in which backtracking tries them (alternatives left to right, greedy repetition longest
  first), and \<^verbatim>\<open>re.search\<close> returns the first match at the leftmost position that has
  one. Repetition is only ever applied to a single-character atom in the source.
\<close>

datatype atom =
    Chr char                 \<comment> \<open>a literal character\<close>
  | AnyChar                  \<comment> \<open>\<^verbatim>\<open>.\<close>\<close>
  | Digit                    \<comment> \<open>\<^verbatim>\<open>\d\<close>\<close>
  | Space                    \<comment> \<open>\<^verbatim>\<open>\s\<close>\<close>
  | OneOf "char list"        \<comment> \<open>\<^verbatim>\<open>[...]\<close>\<close>

datatype re =
    Eps
  | Atom atom
  | Rep atom nat "nat option"   \<comment> \<open>greedy \<^verbatim>\<open>{lo,hi}\<close>; \<open>None\<close> is no upper bound\<close>
  | Seq re re
  | Alt re re
  | Opt re                      \<comment> \<open>greedy \<^verbatim>\<open>?\<close>\<close>
  | Group nat re                \<comment> \<open>capturing group with its number\<close>
  | WordB                       \<comment> \<open>\<^verbatim>\<open>\b\<close>\<close>

definition is_digit :: "char \<Rightarrow> bool" where
  "is_digit c = (c \<in> set ''0123456789'')"

definition is_space :: "char \<Rightarrow> bool" where
  "is_space c = (c \<in> set [CHR '' '', CHR 0x09, CHR 0x0A, CHR 0x0B, CHR 0x0C, CHR 0x0D,
                            CHR 0x1C, CHR 0x1D, CHR 0x1E, CHR 0x1F, CHR 0x85, CHR 0xA0])"

definition is_word :: "char \<Rightarrow> bool" where
  "is_word c =
     (c \<in> set (''abcdefghijklmnopqrstuvwxyzABCDEFGHIJKLMNOPQRSTUVWXYZ0123456789_''
                @ [CHR 0xAA, CHR 0xB2, CHR 0xB3, CHR 0xB5, CHR 0xB9, CHR 0xBA, CHR 0xBC, CHR 0xBD,
                   CHR 0xBE]
                @ upper_latin1 @ lower_latin1 @ [CHR 0xDF, CHR 0xFF]))"

fun atom_ok :: "bool \<Rightarrow> atom \<Rightarrow> char \<Rightarrow> bool" where
  "atom_ok ic (Chr a) c = (if ic then lower_char c = lower_char a else c = a)"
| "atom_ok ic AnyChar c = (c \<noteq> CHR 0x0A)"
| "atom_ok ic Digit c = is_digit c"
| "atom_ok ic Space c = is_space c"
| "atom_ok ic (OneOf cs) c =
     (if ic then lower_char c \<in> set (map lower_char cs) else c \<in> set cs)"

text \<open>A matcher state: the character before the position (for \<^verbatim>\<open>\b\<close>), the text from
  the position on, and the groups captured so far, newest first.\<close>

type_synonym mstate = "char option \<times> string \<times> (nat \<times> string) list"

fun reps :: "bool \<Rightarrow> atom \<Rightarrow> nat \<Rightarrow> nat option \<Rightarrow> char option \<Rightarrow> string
    \<Rightarrow> (char option \<times> string) list" where
  "reps ic a lo hi p [] = (if lo = 0 then [(p, [])] else [])"
| "reps ic a lo hi p (c # cs) =
     (if hi \<noteq> Some 0 \<and> atom_ok ic a c
      then reps ic a (lo - 1) (map_option (\<lambda>h. h - 1) hi) (Some c) cs else [])
     @ (if lo = 0 then [(p, c # cs)] else [])"

definition word_opt :: "char option \<Rightarrow> bool" where
  "word_opt p = (case p of None \<Rightarrow> False | Some c \<Rightarrow> is_word c)"

definition first_char :: "string \<Rightarrow> char option" where
  "first_char s = (case s of [] \<Rightarrow> None | c # cs \<Rightarrow> Some c)"

fun rmatch :: "bool \<Rightarrow> re \<Rightarrow> mstate \<Rightarrow> mstate list" where
  "rmatch ic Eps st = [st]"
| "rmatch ic (Atom a) (p, s, g) =
     (case s of [] \<Rightarrow> [] | c # cs \<Rightarrow> if atom_ok ic a c then [(Some c, cs, g)] else [])"
| "rmatch ic (Rep a lo hi) (p, s, g) = map (\<lambda>(p', s'). (p', s', g)) (reps ic a lo hi p s)"
| "rmatch ic (Seq r1 r2) st = concat (map (rmatch ic r2) (rmatch ic r1 st))"
| "rmatch ic (Alt r1 r2) st = rmatch ic r1 st @ rmatch ic r2 st"
| "rmatch ic (Opt r) st = rmatch ic r st @ [st]"
| "rmatch ic (Group k r) (p, s, g) =
     map (\<lambda>(p', s', g'). (p', s', (k, take (length s - length s') s) # g'))
         (rmatch ic r (p, s, g))"
| "rmatch ic WordB (p, s, g) =
     (if word_opt p \<noteq> word_opt (first_char s) then [(p, s, g)] else [])"

fun search_from :: "bool \<Rightarrow> re \<Rightarrow> char option \<Rightarrow> string \<Rightarrow> mstate option" where
  "search_from ic r p [] = (case rmatch ic r (p, [], []) of [] \<Rightarrow> None | m # ms \<Rightarrow> Some m)"
| "search_from ic r p (c # cs) =
     (case rmatch ic r (p, c # cs, []) of
        [] \<Rightarrow> search_from ic r (Some c) cs
      | m # ms \<Rightarrow> Some m)"

text \<open>\<^verbatim>\<open>re.search(pattern, text, flags)\<close>: the groups of the match, or \<open>None\<close>; \<open>ic\<close> is
  \<^verbatim>\<open>re.I\<close>.\<close>

definition re_search :: "bool \<Rightarrow> re \<Rightarrow> string \<Rightarrow> (nat \<times> string) list option" where
  "re_search ic r txt = map_option (\<lambda>m. snd (snd m)) (search_from ic r None txt)"

definition group :: "(nat \<times> string) list \<Rightarrow> nat \<Rightarrow> string option" where
  "group g k = map_of g k"

fun lit :: "string \<Rightarrow> re" where
  "lit [] = Eps"
| "lit (c # cs) = Seq (Atom (Chr c)) (lit cs)"

definition seqs :: "re list \<Rightarrow> re" where
  "seqs rs = foldr Seq rs Eps"

definition alts :: "re \<Rightarrow> re list \<Rightarrow> re" where
  "alts r rs = foldl Alt r rs"

section \<open>planner.py\<close>

definition MONTH_ALIASES :: "(string \<times> int) list" where
  "MONTH_ALIASES =
     [(''jan'', 1), (''january'', 1), (''feb'', 2), (''february'', 2), (''mar'', 3),
      (''march'', 3), (''apr'', 4), (''april'', 4), (''may'', 5), (''jun'', 6), (''june'', 6),
      (''jul'', 7), (''july'', 7), (''aug'', 8), (''august'', 8), (''sep'', 9), (''sept'', 9),
      (''september'', 9), (''oct'', 10), (''october'', 10), (''nov'', 11), (''november'', 11),
      (''dec'', 12), (''december'', 12)]"

text \<open>\<^verbatim>\<open>int(s)\<close> for a string of decimal digits, as the numeric groups are.\<close>

definition digit_val :: "char \<Rightarrow> int" where
  "digit_val c =
     (case map_of (zip ''0123456789'' [0, 1, 2, 3, 4, 5, 6, 7, 8, 9]) c of
        Some d \<Rightarrow> d | None \<Rightarrow> 0)"

definition py_int :: "string \<Rightarrow> int option" where
  "py_int s =
     (if s \<noteq> [] \<and> list_all is_digit s
      then Some (foldl (\<lambda>a c. 10 * a + digit_val c) 0 s) else None)"

text \<open>The verbose-mode pattern of the "June 2025" style: a month name or abbreviation,
  white space, and a year \<^verbatim>\<open>20dd\<close>.\<close>

definition month_name_re :: re where
  "month_name_re =
     alts (Seq (lit ''jan'') (Opt (lit ''uary'')))
       [Seq (lit ''feb'') (Opt (lit ''ruary'')),
        Seq (lit ''mar'') (Opt (lit ''ch'')),
        Seq (lit ''apr'') (Opt (lit ''il'')),
        lit ''may'',
        Seq (lit ''jun'') (Opt (lit ''e'')),
        Seq (lit ''jul'') (Opt (lit ''y'')),
        Seq (lit ''aug'') (Opt (lit ''ust'')),
        Seq (lit ''sep'') (Opt (Seq (lit ''t'') (Opt (lit ''ember'')))),
        Seq (lit ''oct'') (Opt (lit ''ober'')),
        Seq (lit ''nov'') (Opt (lit ''ember'')),
        Seq (lit ''dec'') (Opt (lit ''ember''))]"

definition year_re :: re where
  "year_re = Seq (lit ''20'') (Rep Digit 2 (Some 2))"

definition month_year_re :: re where
  "month_year_re = seqs [Group 1 month_name_re, Rep Space 1 None, Group 2 year_re]"

text \<open>\<^verbatim>\<open>(20\d{2})[-/](\d{1,2})\<close>\<close>

definition year_month_re :: re where
  "year_month_re = seqs [Group 1 year_re, Atom (OneOf ''-/''), Group 2 (Rep Digit 1 (Some 2))]"

text \<open>\<^verbatim>\<open>\bk\b\<close> for a key \<open>k\<close> of the alias table\<close>

definition word_re :: "string \<Rightarrow> re" where
  "word_re k = seqs [WordB, lit k, WordB]"

text \<open>\<^verbatim>\<open>_parse_month_year\<close>; the fallback year is an integer or \<^verbatim>\<open>None\<close>, and a fallback
  of 0 counts as absent in the third strategy.\<close>

definition parse_month_year :: "string \<Rightarrow> int option
    \<Rightarrow> pyerror + (int option \<times> int option)" where
  "parse_month_year txt0 fallback =
     (let txt = lower txt0 in
      case re_search False month_year_re txt of
        Some g \<Rightarrow>
          (case (group g 1, group g 2) of
             (Some g1, Some g2) \<Rightarrow>
               (case map_of MONTH_ALIASES (take 3 g1) of
                  None \<Rightarrow> Inl KeyErr
                | Some mo \<Rightarrow>
                    (case py_int g2 of None \<Rightarrow> Inl ValueErr
                     | Some y \<Rightarrow> Inr (Some y, Some mo)))
           | _ \<Rightarrow> Inl TypeErr)
      | None \<Rightarrow>
          (case re_search False year_month_re txt of
             Some g \<Rightarrow>
               (case (group g 1, group g 2) of
                  (Some g1, Some g2) \<Rightarrow>
                    (case (py_int g1, py_int g2) of
                       (Some y, Some mo) \<Rightarrow> Inr (Some y, Some mo)
                     | _ \<Rightarrow> Inl ValueErr)
                | _ \<Rightarrow> Inl TypeErr)
           | None \<Rightarrow>
               (case find (\<lambda>kv. re_search False (word_re (fst kv)) txt \<noteq> None) MONTH_ALIASES of
                  Some kv \<Rightarrow>
                    (let yr = (case fallback of None \<Rightarrow> None
                               | Some y \<Rightarrow> if y \<noteq> 0 then Some y else None)
                     in Inr (yr, Some (snd kv)))
                | None \<Rightarrow> Inr (fallback, None))))"

text \<open>\<^verbatim>\<open>last\s+(\d{1,2})\s+months?\<close>, searched with \<^verbatim>\<open>re.I\<close>\<close>

definition window_re :: re where
  "window_re =
     seqs [lit ''last'', Rep Space 1 None, Group 1 (Rep Digit 1 (Some 2)), Rep Space 1 None,
           lit ''month'', Opt (Atom (Chr CHR ''s''))]"

text \<open>\<^verbatim>\<open>_parse_window\<close>\<close>

definition parse_window :: "string \<Rightarrow> int \<Rightarrow> pyerror + int" where
  "parse_window txt default_last_n =
     (case re_search True window_re txt of
        Some g \<Rightarrow>
          (case group g 1 of
             None \<Rightarrow> Inl TypeErr
           | Some g1 \<Rightarrow> (case py_int g1 of None \<Rightarrow> Inl ValueErr | Some n \<Rightarrow> Inr n))
      | None \<Rightarrow> Inr default_last_n)"

text \<open>The patterns of the intent rules.\<close>

definition revenue_budget_re :: re where
  "revenue_budget_re =
     alts (seqs [lit ''revenue'', Rep AnyChar 0 None, lit ''budget''])
       [seqs [lit ''vs'', Rep Space 0 None, lit ''budget''],
        seqs [lit ''budget'', Rep AnyChar 0 None, lit ''revenue'']]"

definition gross_margin_re :: re where
  "gross_margin_re = seqs [lit ''gross'', Rep Space 0 None, lit ''margin'']"

definition trend_re :: re where
  "trend_re =
     alts (lit ''trend'')
       [seqs [lit ''last'', Rep Space 1 None, Rep Digit 1 None, Rep Space 1 None, lit ''months''],
        seqs [lit ''last'', Rep Space 1 None, lit ''months'']]"

definition opex_re :: re where
  "opex_re = alts (lit ''opex'') [seqs [lit ''operating'', Rep Space 1 None, lit ''expenses'']]"

definition breakdown_re :: re where
  "breakdown_re = alts (seqs [lit ''break'', Rep Space 0 None, lit ''down'']) [lit ''breakdown'']"

definition runway_re :: re where
  "runway_re = alts (seqs [lit ''cash'', Rep Space 0 None, lit ''runway'']) [lit ''runway'']"

definition found :: "re \<Rightarrow> string \<Rightarrow> bool" where
  "found r txt = (re_search False r txt \<noteq> None)"

record answer =
  text_of :: string
  chart_of :: "chart option"

definition join :: "string \<Rightarrow> string list \<Rightarrow> string" where
  "join sep xs = (case xs of [] \<Rightarrow> [] | y # ys \<Rightarrow> y @ concat (map (\<lambda>z. sep @ z) ys))"

definition msg_month_year :: string where
  "msg_month_year = ''Please include a month and year (e.g., 'June 2025').''"

definition msg_opex_month_year :: string where
  "msg_opex_month_year = ''Please include a month and year for the Opex breakdown.''"

definition msg_no_runway :: string where
  "msg_no_runway = ''Not enough data to compute runway.''"

definition msg_unclassified :: string where
  "msg_unclassified =
     ''Sorry, I couldn't classify that question. Try: 'What was June 2025 revenue vs budget?''
     @ [CHR 0x27]"

text \<open>The four branches of \<^verbatim>\<open>plan_and_execute\<close>, in the order of the source.\<close>

definition answer_revenue_vs_budget :: "string \<Rightarrow> dataset \<Rightarrow> int option \<Rightarrow> pyerror + answer" where
  "answer_revenue_vs_budget ql dfs default_year =
     (case parse_month_year ql default_year of
        Inl e \<Rightarrow> Inl e
      | Inr (year, month) \<Rightarrow>
          (case (month, year) of
             (Some mo, Some y) \<Rightarrow>
               (case revenue_vs_budget_usd dfs y mo of
                  Inl e \<Rightarrow> Inl e
                | Inr res \<Rightarrow>
                    Inr \<lparr>text_of =
                           ''Revenue vs Budget for '' @ show_int y @ ''-'' @ fmt_02d mo
                           @ '': Actual $'' @ fmt_fixed 0 True (actual_usd res)
                           @ '' | Budget $'' @ fmt_fixed 0 True (budget_usd res)
                           @ '' | Variance $'' @ fmt_fixed 0 True (variance_usd res)
                           @ '' ('' @ fmt_float 1 False (variance_pct res) @ ''%).'',
                         chart_of = Some (rvb_chart res)\<rparr>)
           | _ \<Rightarrow> Inr \<lparr>text_of = msg_month_year, chart_of = None\<rparr>))"

definition answer_gross_margin :: "string \<Rightarrow> dataset \<Rightarrow> pyerror + answer" where
  "answer_gross_margin ql dfs =
     (case parse_window ql 3 of
        Inl e \<Rightarrow> Inl e
      | Inr n \<Rightarrow>
          (let res = gross_margin_trend_pct dfs n
           in Inr \<lparr>text_of =
                     ''Gross Margin % for last '' @ show_int n @ '' months: ''
                     @ join '', '' (map (\<lambda>x. fst x @ '': '' @ fmt_float 1 False (snd x) @ ''%'')
                                      (series res)),
                   chart_of = Some (gm_chart res)\<rparr>))"

definition answer_opex :: "string \<Rightarrow> dataset \<Rightarrow> int option \<Rightarrow> pyerror + answer" where
  "answer_opex ql dfs default_year =
     (case parse_month_year ql default_year of
        Inl e \<Rightarrow> Inl e
      | Inr (year, month) \<Rightarrow>
          (case (month, year) of
             (Some mo, Some y) \<Rightarrow>
               (case opex_breakdown_usd dfs y mo of
                  Inl e \<Rightarrow> Inl e
                | Inr ch \<Rightarrow>
                    Inr \<lparr>text_of = ''Opex breakdown for '' @ show_int y @ ''-'' @ fmt_02d mo
                                   @ '' (USD).'',
                         chart_of = Some ch\<rparr>)
           | _ \<Rightarrow> Inr \<lparr>text_of = msg_opex_month_year, chart_of = None\<rparr>))"

definition answer_runway :: "dataset \<Rightarrow> answer" where
  "answer_runway dfs =
     (case cash_runway_months dfs of
        None \<Rightarrow> \<lparr>text_of = msg_no_runway, chart_of = None\<rparr>
      | Some res \<Rightarrow>
          \<lparr>text_of = ''Cash runway: '' @ fmt_float 1 False (months res)
                     @ '' months (Cash $'' @ fmt_fixed 0 True (cash_usd res)
                     @ '' / Avg monthly burn $'' @ fmt_fixed 0 True (avg_burn_usd res) @ '').'',
           chart_of = Some (runway_chart res)\<rparr>)"

text \<open>\<^verbatim>\<open>latest_ym.year if latest_ym is not None else None\<close>\<close>

definition default_year_of :: "dataset \<Rightarrow> int option" where
  "default_year_of dfs = map_option d_year (latest_month_in_actuals (actuals dfs))"

text \<open>\<^verbatim>\<open>plan_and_execute\<close>. \<open>Inl\<close> is an exception that leaves the function.\<close>

definition plan_and_execute :: "string \<Rightarrow> dataset \<Rightarrow> pyerror + answer" where
  "plan_and_execute q dfs =
     (let ql = lower q;
          default_year = default_year_of dfs
      in if found revenue_budget_re ql then answer_revenue_vs_budget ql dfs default_year
         else if found gross_margin_re ql \<and> found trend_re ql then answer_gross_margin ql dfs
         else if found opex_re ql \<and> found breakdown_re ql then answer_opex ql dfs default_year
         else if found runway_re ql then Inr (answer_runway dfs)
         else Inr \<lparr>text_of = msg_unclassified, chart_of = None\<rparr>)"

section \<open>Reference definitions\<close>













text \<open>The intents of the specification and its ordered rule list: the first rule whose
  predicate holds of the lower-cased question decides.\<close>

datatype intent = RevenueVsBudget | GrossMarginTrend | OpexBreakdown | CashRunway | Unclassified

definition spec_rules :: "((string \<Rightarrow> bool) \<times> intent) list" where
  "spec_rules =
     [(found revenue_budget_re, RevenueVsBudget),
      (\<lambda>t. found gross_margin_re t \<and> found trend_re t, GrossMarginTrend),
      (\<lambda>t. found opex_re t \<and> found breakdown_re t, OpexBreakdown),
      (found runway_re, CashRunway)]"

definition spec_intent :: "string \<Rightarrow> intent" where
  "spec_intent q =
     (case find (\<lambda>rule. fst rule (lower q)) spec_rules of
        Some rule \<Rightarrow> snd rule | None \<Rightarrow> Unclassified)"

text \<open>The texts a pattern can consume (word boundaries consume nothing), and the patterns
  without capturing groups; both serve to state what a match of the matcher looks like.\<close>

fun lang :: "bool \<Rightarrow> re \<Rightarrow> string set" where
  "lang ic Eps = {[]}"
| "lang ic (Atom a) = {[c] | c. atom_ok ic a c}"
| "lang ic (Rep a lo hi) =
     {w. list_all (atom_ok ic a) w \<and> lo \<le> length w
         \<and> (case hi of None \<Rightarrow> True | Some h \<Rightarrow> length w \<le> h)}"
| "lang ic (Seq r1 r2) = (\<Union>u\<in>lang ic r1. (@) u ` lang ic r2)"
| "lang ic (Alt r1 r2) = lang ic r1 \<union> lang ic r2"
| "lang ic (Opt r) = insert [] (lang ic r)"
| "lang ic (Group k r) = lang ic r"
| "lang ic WordB = {[]}"

fun group_free :: "re \<Rightarrow> bool" where
  "group_free (Group k r) = False"
| "group_free (Seq r1 r2) = (group_free r1 \<and> group_free r2)"
| "group_free (Alt r1 r2) = (group_free r1 \<and> group_free r2)"
| "group_free (Opt r) = group_free r"
| "group_free r = True"

text \<open>The three month/year strategies of the specification, in its order: a month name
  next to a year \<^verbatim>\<open>20dd\<close>, a numeric year-month, a bare month name with the fallback
  year (a fallback of 0 counts as none). The month of a name is looked up by the whole name.\<close>

definition spec_name_year :: "string \<Rightarrow> (int \<times> int) option" where
  "spec_name_year t =
     (case re_search False month_year_re t of
        None \<Rightarrow> None
      | Some g \<Rightarrow>
          (case (Option.bind (group g 2) py_int, Option.bind (group g 1) (map_of MONTH_ALIASES)) of
             (Some y, Some mo) \<Rightarrow> Some (y, mo)
           | _ \<Rightarrow> None))"

definition spec_numeric_year_month :: "string \<Rightarrow> (int \<times> int) option" where
  "spec_numeric_year_month t =
     (case re_search False year_month_re t of
        None \<Rightarrow> None
      | Some g \<Rightarrow>
          (case (Option.bind (group g 1) py_int, Option.bind (group g 2) py_int) of
             (Some y, Some mo) \<Rightarrow> Some (y, mo)
           | _ \<Rightarrow> None))"

definition spec_bare_month :: "string \<Rightarrow> int option" where
  "spec_bare_month t = map_option snd (find (\<lambda>kv. found (word_re (fst kv)) t) MONTH_ALIASES)"

definition spec_month_year :: "string \<Rightarrow> int option \<Rightarrow> int option \<times> int option" where
  "spec_month_year t fallback =
     (case spec_name_year t of
        Some (y, mo) \<Rightarrow> (Some y, Some mo)
      | None \<Rightarrow>
          (case spec_numeric_year_month t of
             Some (y, mo) \<Rightarrow> (Some y, Some mo)
           | None \<Rightarrow>
               (case spec_bare_month t of
                  Some mo \<Rightarrow> (if fallback = Some 0 then None else fallback, Some mo)
                | None \<Rightarrow> (fallback, None))))"



section \<open>Sample data\<close>

definition ex_row_eur :: row where
  "ex_row_eur = \<lparr>date = \<lparr>d_year = 2025, d_month = 6, d_day = 15\<rparr>, entity = ''HQ'',
     account = ''Revenue'', currency = ''EUR'', amount = 100\<rparr>"

definition ex_row_gbp :: row where
  "ex_row_gbp = \<lparr>date = \<lparr>d_year = 2025, d_month = 6, d_day = 20\<rparr>, entity = ''UK'',
     account = ''Total Revenue'', currency = ''GBP'', amount = 100\<rparr>"

definition ex_fx_gbp :: fx_row where
  "ex_fx_gbp = \<lparr>fx_date = \<lparr>d_year = 2025, d_month = 6, d_day = 1\<rparr>,
     fx_currency = ''GBP'', fx_rate_to_usd = 5 / 4\<rparr>"

definition ex_budget_row :: row where
  "ex_budget_row = \<lparr>date = \<lparr>d_year = 2025, d_month = 6, d_day = 1\<rparr>, entity = ''HQ'',
     account = ''revenue'', currency = ''USD'', amount = 200\<rparr>"

definition ex_day :: "int \<Rightarrow> int \<Rightarrow> int \<Rightarrow> date" where
  "ex_day y m d = \<lparr>d_year = y, d_month = m, d_day = d\<rparr>"



definition ex_cash :: "rat \<Rightarrow> cash_row list" where
  "ex_cash x =
     [\<lparr>cash_date = ex_day 2025 5 31, cash_entity = ''HQ'', cash_currency = ''USD'', cash = 500\<rparr>,
      \<lparr>cash_date = ex_day 2025 6 30, cash_entity = ''HQ'', cash_currency = ''USD'', cash = x\<rparr>]"

definition ex_dataset :: dataset where
  "ex_dataset = \<lparr>actuals = [ex_row_eur, ex_row_gbp], budget = [ex_budget_row],
     fx = [ex_fx_gbp], cash_tbl = ex_cash 1000\<rparr>"



definition ex_empty :: dataset where
  "ex_empty = \<lparr>actuals = [], budget = [], fx = [], cash_tbl = []\<rparr>"

section \<open>Properties of the metric functions\<close>


lemma lower_simps [simp]: "lower [] = []" "lower (c # cs) = lower_char c # lower cs"
  by (simp_all add: lower_def)



lemma fst_groupby_sum:
  "map fst (groupby_sum P df) = sort (remdups (map ym (filter P df)))"
  by (simp add: groupby_sum_def Let_def comp_def)




lemma fx_matches_empty_iff:
  "fx_matches fxt r = [] \<longleftrightarrow>
     (\<forall>f\<in>set fxt. \<not> (to_period (fx_date f) = to_period (date r) \<and> fx_currency f = currency r))"
  by (auto simp: fx_matches_def filter_empty_conv month_start_def to_timestamp_def to_period_def)

text \<open>
  C8. Currency normalization never fails and handles each ledger row on its own. A row whose
  (period, currency) pair is absent from the fx table yields exactly one output row, with
  rate 1 and reporting amount equal to the native amount. Every output row of a ledger row
  carries \<open>amount_usd = amount * rate\<close>, and when the pair is present the rate is one
  listed in the fx table for that pair.
\<close>

theorem merge_fx_default_rate:
  "merge_fx df fxt = concat (map (\<lambda>r. merge_fx [r] fxt) df)
   \<and> ((\<forall>f\<in>set fxt. \<not> (to_period (fx_date f) = to_period (date r)
                        \<and> fx_currency f = currency r))
      \<longrightarrow> (\<exists>u. merge_fx [r] fxt = [u] \<and> rate_to_usd u = 1 \<and> amount u = amount r
               \<and> amount_usd u = amount r))
   \<and> (\<forall>u\<in>set (merge_fx [r] fxt).
         amount u = amount r \<and> amount_usd u = amount r * rate_to_usd u
         \<and> ((\<exists>f\<in>set fxt. to_period (fx_date f) = to_period (date r)
                          \<and> fx_currency f = currency r)
            \<longrightarrow> (\<exists>f\<in>set fxt. to_period (fx_date f) = to_period (date r)
                          \<and> fx_currency f = currency r \<and> rate_to_usd u = fx_rate_to_usd f)))
   \<and> merge_fx [r] fxt \<noteq> []"
proof (intro conjI)
  show "merge_fx df fxt = concat (map (\<lambda>r. merge_fx [r] fxt) df)"
    by (simp add: merge_fx_def)
  show "(\<forall>f\<in>set fxt. \<not> (to_period (fx_date f) = to_period (date r)
                        \<and> fx_currency f = currency r))
      \<longrightarrow> (\<exists>u. merge_fx [r] fxt = [u] \<and> rate_to_usd u = 1 \<and> amount u = amount r
               \<and> amount_usd u = amount r)"
    using fx_matches_empty_iff [of fxt r]
    by (auto simp: merge_fx_def merge_row_def with_rate_def)
  show "merge_fx [r] fxt \<noteq> []"
    by (simp add: merge_fx_def merge_row_def split: list.split)
  show "\<forall>u\<in>set (merge_fx [r] fxt).
         amount u = amount r \<and> amount_usd u = amount r * rate_to_usd u
         \<and> ((\<exists>f\<in>set fxt. to_period (fx_date f) = to_period (date r)
                          \<and> fx_currency f = currency r)
            \<longrightarrow> (\<exists>f\<in>set fxt. to_period (fx_date f) = to_period (date r)
                          \<and> fx_currency f = currency r \<and> rate_to_usd u = fx_rate_to_usd f))"
  proof (cases "fx_matches fxt r")
    case Nil
    then show ?thesis
      using fx_matches_empty_iff [of fxt r]
      by (auto simp: merge_fx_def merge_row_def with_rate_def)
  next
    case (Cons f fs)
    have sub: "\<And>g. g \<in> set (fx_matches fxt r) \<Longrightarrow>
       g \<in> set fxt \<and> to_period (fx_date g) = to_period (date r) \<and> fx_currency g = currency r"
      by (auto simp: fx_matches_def month_start_def to_timestamp_def to_period_def)
    show ?thesis
    proof
      fix u assume "u \<in> set (merge_fx [r] fxt)"
      then obtain g where g: "g \<in> set (fx_matches fxt r)" and u: "u = with_rate r (fx_rate_to_usd g)"
        using Cons by (auto simp: merge_fx_def merge_row_def)
      from sub [OF g] u show "amount u = amount r \<and> amount_usd u = amount r * rate_to_usd u
         \<and> ((\<exists>f\<in>set fxt. to_period (fx_date f) = to_period (date r)
                          \<and> fx_currency f = currency r)
            \<longrightarrow> (\<exists>f\<in>set fxt. to_period (fx_date f) = to_period (date r)
                          \<and> fx_currency f = currency r \<and> rate_to_usd u = fx_rate_to_usd f))"
        by (auto simp: with_rate_def)
    qed
  qed
qed

theorem merge_fx_default_rate_witness:
  "merge_fx [ex_row_eur] [ex_fx_gbp] = [with_rate ex_row_eur 1]
   \<and> amount_usd (with_rate ex_row_eur 1) = 100
   \<and> map amount_usd (merge_fx [ex_row_gbp] [ex_fx_gbp]) = [125]"
  using merge_fx_default_rate [of "[ex_row_eur]" "[ex_fx_gbp]" ex_row_eur]
    merge_fx_default_rate [of "[ex_row_gbp]" "[ex_fx_gbp]" ex_row_gbp]
  by (simp add: ex_row_eur_def ex_row_gbp_def ex_fx_gbp_def merge_fx_def merge_row_def
      fx_matches_def with_rate_def month_start_def to_period_def to_timestamp_def)




lemma normalize_row_simps [simp]:
  "date (normalize_row u) = date u" "amount_usd (normalize_row u) = amount_usd u"
  "account_norm (normalize_row u) = lower (account u)" "ym (normalize_row u) = ym u"
  by (simp_all add: normalize_row_def ym_def)






























section \<open>Properties of the planner\<close>

lemma intent_dispatch:
  "plan_and_execute q dfs =
     (case spec_intent q of
        RevenueVsBudget \<Rightarrow> answer_revenue_vs_budget (lower q) dfs (default_year_of dfs)
      | GrossMarginTrend \<Rightarrow> answer_gross_margin (lower q) dfs
      | OpexBreakdown \<Rightarrow> answer_opex (lower q) dfs (default_year_of dfs)
      | CashRunway \<Rightarrow> Inr (answer_runway dfs)
      | Unclassified \<Rightarrow> Inr \<lparr>text_of = msg_unclassified, chart_of = None\<rparr>)"
  by (simp add: plan_and_execute_def spec_intent_def spec_rules_def Let_def)

text \<open>
  C6. \<open>plan_and_execute\<close> answers by the first rule of the ordered rule list that matches
  the lower-cased question. "revenue vs budget for June" and "budget vs revenue June" are
  RevenueVsBudget, "gross margin" alone is Unclassified, "show cash runway" is CashRunway, and
  an Unclassified question returns the fixed guidance message with no chart, not an exception.
\<close>

theorem intent_rules_first_match:
  "plan_and_execute q dfs =
     (case spec_intent q of
        RevenueVsBudget \<Rightarrow> answer_revenue_vs_budget (lower q) dfs (default_year_of dfs)
      | GrossMarginTrend \<Rightarrow> answer_gross_margin (lower q) dfs
      | OpexBreakdown \<Rightarrow> answer_opex (lower q) dfs (default_year_of dfs)
      | CashRunway \<Rightarrow> Inr (answer_runway dfs)
      | Unclassified \<Rightarrow> Inr \<lparr>text_of = msg_unclassified, chart_of = None\<rparr>)
   \<and> spec_intent ''revenue vs budget for June'' = RevenueVsBudget
   \<and> spec_intent ''budget vs revenue June'' = RevenueVsBudget
   \<and> spec_intent ''gross margin'' = Unclassified
   \<and> spec_intent ''show cash runway'' = CashRunway
   \<and> plan_and_execute ''gross margin'' dfs = Inr \<lparr>text_of = msg_unclassified, chart_of = None\<rparr>
   \<and> plan_and_execute ''show cash runway'' dfs = Inr (answer_runway dfs)"
proof -
  have a: "spec_intent ''revenue vs budget for June'' = RevenueVsBudget" by code_simp
  have b: "spec_intent ''budget vs revenue June'' = RevenueVsBudget" by code_simp
  have c: "spec_intent ''gross margin'' = Unclassified" by code_simp
  have d: "spec_intent ''show cash runway'' = CashRunway" by code_simp
  show ?thesis
    using a b c d intent_dispatch [of "''gross margin''" dfs]
      intent_dispatch [of "''show cash runway''" dfs] intent_dispatch [of q dfs]
    by simp
qed

text \<open>
  C10. The numeric year-month pattern does not validate the month: "2025-13" parses to
  (2025, 13), and the question "revenue vs budget for 2025-13" on a well-formed dataset leaves
  \<open>plan_and_execute\<close> with the exception of the timestamp constructor.
\<close>

theorem month_out_of_range_raises:
  "parse_month_year ''2025-13'' None = Inr (Some 2025, Some 13)
   \<and> plan_and_execute ''revenue vs budget for 2025-13'' ex_dataset = Inl ValueErr"
  by code_simp

text \<open>
  C2 as stated fails: on a profitable dataset the months value is the floating-point infinity
  and the runway narrative is that value put through the one-decimal number format.
\<close>

theorem runway_infinite_rendered_counterexample:
  "map_option months (cash_runway_months ex_dataset) = Some PosInf
   \<and> map_sum id text_of (plan_and_execute ''show cash runway'' ex_dataset)
       = Inr (''Cash runway: '' @ fmt_float 1 False PosInf
              @ '' months (Cash $1,000 / Avg monthly burn $-225).'')
   \<and> map_sum id text_of (plan_and_execute ''show cash runway'' ex_dataset)
       = Inr ''Cash runway: inf months (Cash $1,000 / Avg monthly burn $-225).''"
  by code_simp

lemma fmt_fixed_has_point: "CHR ''.'' \<in> set (fmt_fixed (Suc n) grp x)"
  by (simp add: fmt_fixed_def Let_def)

lemma fmt_finite_not_inf: "fmt_float 1 False (Num x) \<noteq> ''inf''"
proof
  assume "fmt_float 1 False (Num x) = ''inf''"
  then have "CHR ''.'' \<in> set ''inf''"
    using fmt_fixed_has_point [of 0 False x] by (simp add: fmt_float_def)
  then show False by simp
qed

text \<open>
  C2 (as amended). The infinite runway is the floating-point infinity in the months field,
  different from every finite months value. For every dataset on which
  \<open>cash_runway_months\<close> reports it, the narrative for a runway question is
  "Cash runway: inf months (Cash $... / Avg monthly burn $...)." with the chart: the value goes
  through the same one-decimal number format as a finite one, which prints it as "inf", a text
  that no finite number is printed as.
\<close>

theorem runway_infinite_rendered:
  assumes "spec_intent q = CashRunway"
    and "cash_runway_months dfs = Some r" and "months r = PosInf"
  shows "plan_and_execute q dfs =
           Inr \<lparr>text_of = ''Cash runway: inf months (Cash $''
                            @ fmt_fixed 0 True (cash_usd r)
                            @ '' / Avg monthly burn $'' @ fmt_fixed 0 True (avg_burn_usd r)
                            @ '').'',
                 chart_of = Some (runway_chart r)\<rparr>
         \<and> fmt_float 1 False (months r) = ''inf''
         \<and> (\<forall>x. months r \<noteq> Num x \<and> fmt_float 1 False (Num x) \<noteq> ''inf'')"
  using assms
  by (simp add: intent_dispatch answer_runway_def fmt_float_def fmt_finite_not_inf [unfolded fmt_float_def, simplified])

theorem runway_infinite_rendered_witness:
  "spec_intent ''show cash runway'' = CashRunway
   \<and> map_option months (cash_runway_months ex_dataset) = Some PosInf
   \<and> plan_and_execute ''show cash runway'' ex_dataset =
        Inr \<lparr>text_of = ''Cash runway: inf months (Cash $1,000 / Avg monthly burn $-225).'',
              chart_of = Some [BarPeriods [(2025, 6)] [225],
                               CashPoints [(2025, 6)] [1000]]\<rparr>"
proof -
  have a: "spec_intent ''show cash runway'' = CashRunway" by code_simp
  have b: "cash_runway_months ex_dataset =
             Some \<lparr>months = PosInf, cash_usd = 1000, avg_burn_usd = - 225,
                    runway_chart = [BarPeriods [(2025, 6)] [225],
                                    CashPoints [(2025, 6)] [1000]]\<rparr>"
    by code_simp
  have c: "fmt_fixed 0 True 1000 = ''1,000''" "fmt_fixed 0 True (- 225) = ''-225''"
    by code_simp+
  show ?thesis
    using runway_infinite_rendered [OF a b] a b c by simp
qed

subsection \<open>What a match consumes\<close>

lemma reps_sound:
  "(p', s') \<in> set (reps ic a lo hi p s) \<Longrightarrow>
   \<exists>w. s = w @ s' \<and> list_all (atom_ok ic a) w \<and> lo \<le> length w
       \<and> (case hi of None \<Rightarrow> True | Some h \<Rightarrow> length w \<le> h)"
proof (induction s arbitrary: lo hi p)
  case Nil
  then show ?case by (auto split: if_splits option.splits)
next
  case (Cons c cs)
  from Cons.prems consider
    (more) "hi \<noteq> Some 0" "atom_ok ic a c"
      "(p', s') \<in> set (reps ic a (lo - 1) (map_option (\<lambda>h. h - 1) hi) (Some c) cs)"
    | (stop) "lo = 0" "(p', s') = (p, c # cs)"
    by (auto split: if_splits)
  then show ?case
  proof cases
    case more
    from Cons.IH [OF more(3)] obtain w where w: "cs = w @ s'" "list_all (atom_ok ic a) w"
      "lo - 1 \<le> length w"
      "(case map_option (\<lambda>h. h - 1) hi of None \<Rightarrow> True | Some h \<Rightarrow> length w \<le> h)"
      by blast
    have "c # cs = (c # w) @ s'" using w(1) by simp
    moreover have "list_all (atom_ok ic a) (c # w)" using w(2) more(2) by simp
    moreover have "lo \<le> length (c # w)" using w(3) by simp
    moreover have "(case hi of None \<Rightarrow> True | Some h \<Rightarrow> length (c # w) \<le> h)"
      using w(4) more(1) by (cases hi) auto
    ultimately show ?thesis by blast
  next
    case stop
    then show ?thesis by (auto split: option.splits)
  qed
qed

lemma rmatch_sound:
  "(p', s', g') \<in> set (rmatch ic r (p, s, g)) \<Longrightarrow> \<exists>w\<in>lang ic r. s = w @ s'"
proof (induction r arbitrary: p s g p' s' g')
  case (Rep a lo hi)
  then have "(p', s') \<in> set (reps ic a lo hi p s)" by auto
  from reps_sound [OF this] show ?case by auto
next
  case (Seq r1 r2)
  then obtain mid where mid: "mid \<in> set (rmatch ic r1 (p, s, g))"
      "(p', s', g') \<in> set (rmatch ic r2 mid)" by auto
  obtain p1 s1 g1 where m: "mid = (p1, s1, g1)" by (cases mid) auto
  from Seq.IH(1) mid(1) [unfolded m] obtain u where u: "u \<in> lang ic r1" "s = u @ s1" by blast
  from Seq.IH(2) mid(2) [unfolded m] obtain v where v: "v \<in> lang ic r2" "s1 = v @ s'" by blast
  from u v show ?case by auto
next
  case (Alt r1 r2)
  from Alt.prems consider "(p', s', g') \<in> set (rmatch ic r1 (p, s, g))"
    | "(p', s', g') \<in> set (rmatch ic r2 (p, s, g))" by auto
  then show ?case
  proof cases
    case 1
    from Alt.IH(1) [OF this] show ?thesis by auto
  next
    case 2
    from Alt.IH(2) [OF this] show ?thesis by auto
  qed
next
  case (Group k r)
  then obtain g'' where "(p', s', g'') \<in> set (rmatch ic r (p, s, g))" by auto
  from Group.IH [OF this] show ?case by simp
qed (auto split: list.splits if_splits)

lemma rmatch_group_free:
  "group_free r \<Longrightarrow> (p', s', g') \<in> set (rmatch ic r (p, s, g)) \<Longrightarrow> g' = g"
proof (induction r arbitrary: p s g p' s' g')
  case (Seq r1 r2)
  then obtain mid where mid: "mid \<in> set (rmatch ic r1 (p, s, g))"
      "(p', s', g') \<in> set (rmatch ic r2 mid)" by auto
  obtain p1 s1 g1 where m: "mid = (p1, s1, g1)" by (cases mid) auto
  from Seq.IH(1) Seq.prems(1) mid(1) [unfolded m] have "g1 = g" by auto
  moreover from Seq.IH(2) Seq.prems(1) mid(2) [unfolded m] have "g' = g1" by auto
  ultimately show ?case by simp
qed (auto split: list.splits if_splits)

lemma rmatch_Group:
  assumes "group_free r" and "(p', s', g') \<in> set (rmatch ic (Group k r) (p, s, g))"
  shows "\<exists>w\<in>lang ic r. s = w @ s' \<and> g' = (k, w) # g"
proof -
  from assms(2) obtain g'' where m: "(p', s', g'') \<in> set (rmatch ic r (p, s, g))"
      and g': "g' = (k, take (length s - length s') s) # g''" by auto
  from rmatch_group_free [OF assms(1) m] have "g'' = g" .
  moreover from rmatch_sound [OF m] obtain w where "w \<in> lang ic r" "s = w @ s'" by blast
  ultimately show ?thesis using g' by auto
qed

lemma seqs_simps: "seqs [] = Eps" "seqs (r # rs) = Seq r (seqs rs)"
  by (simp_all add: seqs_def)

lemma rmatch_Seq_iff:
  "x \<in> set (rmatch ic (Seq r1 r2) st) \<longleftrightarrow> (\<exists>mid\<in>set (rmatch ic r1 st). x \<in> set (rmatch ic r2 mid))"
  by simp

lemma rmatch_Eps_iff: "x \<in> set (rmatch ic Eps st) \<longleftrightarrow> x = st"
  by auto

lemma two_groups:
  assumes "group_free A" "group_free X"  "group_free B"
    and "(p', s', g') \<in> set (rmatch ic (seqs [Group 1 A, X, Group 2 B]) (p, s, g))"
  shows "\<exists>w1\<in>lang ic A. \<exists>w2\<in>lang ic B. g' = [(2, w2), (1, w1)] @ g"
proof -
  have "(p', s', g') \<in> set (rmatch ic (Seq (Group 1 A) (Seq X (Seq (Group 2 B) Eps))) (p, s, g))"
    using assms(4) by (simp only: seqs_simps)
  then obtain m1 where 1: "m1 \<in> set (rmatch ic (Group 1 A) (p, s, g))"
    and r1: "(p', s', g') \<in> set (rmatch ic (Seq X (Seq (Group 2 B) Eps)) m1)"
    unfolding rmatch_Seq_iff [of _ ic "Group 1 A"] by blast
  from r1 obtain m2 where 2: "m2 \<in> set (rmatch ic X m1)"
    and r2: "(p', s', g') \<in> set (rmatch ic (Seq (Group 2 B) Eps) m2)"
    unfolding rmatch_Seq_iff [of _ ic X] by blast
  from r2 obtain m3 where e3: "m3 \<in> set (rmatch ic (Group 2 B) m2)"
    and r3: "(p', s', g') \<in> set (rmatch ic Eps m3)"
    unfolding rmatch_Seq_iff [of _ ic "Group 2 B"] by blast
  from r3 have "m3 = (p', s', g')" by (simp only: rmatch_Eps_iff)
  with e3 have 3: "(p', s', g') \<in> set (rmatch ic (Group 2 B) m2)" by simp
  obtain p1 s1 g1 where m1: "m1 = (p1, s1, g1)" by (cases m1) auto
  obtain p2 s2 g2 where m2: "m2 = (p2, s2, g2)" by (cases m2) auto
  from rmatch_Group [OF assms(1) 1 [unfolded m1]] obtain w1 where
    w1: "w1 \<in> lang ic A" "g1 = (1, w1) # g" by blast
  from rmatch_group_free [OF assms(2) 2 [unfolded m1 m2]] have "g2 = g1" .
  moreover from rmatch_Group [OF assms(3) 3 [unfolded m2]] obtain w2 where
    "w2 \<in> lang ic B" "g' = (2, w2) # g2" by blast
  ultimately show ?thesis using w1 by auto
qed

lemma search_from_sound:
  "search_from ic r p s = Some m \<Longrightarrow>
   \<exists>pre rest q. s = pre @ rest \<and> m \<in> set (rmatch ic r (q, rest, []))"
proof (induction s arbitrary: p)
  case Nil
  then have "m \<in> set (rmatch ic r (p, [], []))"
    by (cases "rmatch ic r (p, [], [])") simp_all
  then show ?case by (intro exI [of _ "[]"] exI [of _ p]) simp
next
  case (Cons c cs)
  note prem = Cons.prems and ih = Cons.IH
  show ?case
  proof (cases "rmatch ic r (p, c # cs, [])")
    case Nil
    with prem have "search_from ic r (Some c) cs = Some m" by simp
    from ih [OF this] obtain pre rest q where
      pr: "cs = pre @ rest" "m \<in> set (rmatch ic r (q, rest, []))" by blast
    show ?thesis
      by (rule exI [of _ "c # pre"], rule exI [of _ rest], rule exI [of _ q]) (simp add: pr)
  next
    case (Cons m' ms)
    with prem have "m \<in> set (rmatch ic r (p, c # cs, []))" by simp
    then show ?thesis
      by (intro exI [of _ "[]"] exI [of _ "c # cs"] exI [of _ p]) simp
  qed
qed

subsection \<open>Month and year extraction\<close>

lemma lang_lit: "lang False (lit w) = {w}"
  by (induction w) auto

lemma group_free_lit [simp]: "group_free (lit w)"
  by (induction w) auto

lemma month_token_lookup:
  assumes "w \<in> lang False month_name_re"
  shows "\<exists>mo. map_of MONTH_ALIASES (take 3 w) = Some mo \<and> map_of MONTH_ALIASES w = Some mo
              \<and> 1 \<le> mo \<and> mo \<le> 12"
proof -
  from assms have "w \<in> set (map fst MONTH_ALIASES)"
    unfolding month_name_re_def alts_def
    by (auto simp: lang_lit MONTH_ALIASES_def)
  then show ?thesis
    by (auto simp: MONTH_ALIASES_def)
qed

lemma py_int_digits:
  "s \<noteq> [] \<Longrightarrow> list_all is_digit s \<Longrightarrow> \<exists>n. py_int s = Some n"
  by (simp add: py_int_def)

lemma list_all_Digit [simp]: "list_all (atom_ok ic Digit) x = list_all is_digit x"
  by (induction x) simp_all

lemma year_token:
  assumes "w \<in> lang False year_re"
  shows "\<exists>y. py_int w = Some y"
proof -
  from assms obtain v where "w = ''20'' @ v" "list_all is_digit v"
    by (auto simp: year_re_def lang_lit)
  then show ?thesis by (intro py_int_digits) (simp_all add: is_digit_def)
qed

lemma group_free_patterns [simp]:
  "group_free month_name_re" "group_free year_re"
  by (simp_all add: month_name_re_def year_re_def alts_def)

lemma re_search_groups:
  assumes "group_free A" "group_free X" "group_free B"
    and "re_search ic (seqs [Group 1 A, X, Group 2 B]) t = Some g"
  shows "\<exists>w1\<in>lang ic A. \<exists>w2\<in>lang ic B. g = [(2, w2), (1, w1)]"
proof -
  from assms(4) obtain m where m: "search_from ic (seqs [Group 1 A, X, Group 2 B]) None t = Some m"
      and g: "g = snd (snd m)"
    by (auto simp: re_search_def)
  from search_from_sound [OF m] obtain pre rest q where
    "m \<in> set (rmatch ic (seqs [Group 1 A, X, Group 2 B]) (q, rest, []))" by blast
  moreover obtain p' s' g' where "m = (p', s', g')" by (cases m) auto
  ultimately show ?thesis
    using two_groups [OF assms(1-3), of p' s' g' ic q rest "[]"] g by auto
qed

lemma group_simps [simp]:
  "group [(2, w2), (1, w1)] 1 = Some w1" "group [(2, w2), (1, w1)] 2 = Some w2"
  by (simp_all add: group_def)

lemma name_year_found:
  assumes "re_search False month_year_re t = Some g"
  shows "\<exists>w1 w2 y mo. g = [(2, w2), (1, w1)] \<and> py_int w2 = Some y
           \<and> map_of MONTH_ALIASES (take 3 w1) = Some mo \<and> map_of MONTH_ALIASES w1 = Some mo"
proof -
  from re_search_groups [OF _ _ _ assms [unfolded month_year_re_def]]
  obtain w1 w2 where w: "w1 \<in> lang False month_name_re" "w2 \<in> lang False year_re"
      "g = [(2, w2), (1, w1)]" by auto
  from month_token_lookup [OF w(1)] year_token [OF w(2)] w(3) show ?thesis by blast
qed

lemma numeric_found:
  assumes "re_search False year_month_re t = Some g"
  shows "\<exists>w1 w2 y mo. g = [(2, w2), (1, w1)] \<and> py_int w1 = Some y \<and> py_int w2 = Some mo"
proof -
  from re_search_groups [OF _ _ _ assms [unfolded year_month_re_def]]
  obtain w1 w2 where w: "w1 \<in> lang False year_re" "w2 \<in> lang False (Rep Digit 1 (Some 2))"
      "g = [(2, w2), (1, w1)]" by auto
  from w(2) have "w2 \<noteq> []" "list_all is_digit w2" by auto
  from py_int_digits [OF this] year_token [OF w(1)] w(3) show ?thesis by blast
qed

lemma spec_name_year_eq:
  "spec_name_year t = None \<longleftrightarrow> re_search False month_year_re t = None"
proof (cases "re_search False month_year_re t")
  case None
  then show ?thesis by (simp add: spec_name_year_def)
next
  case (Some g)
  from name_year_found [OF Some] show ?thesis
    by (auto simp: spec_name_year_def Some group_def)
qed

lemma spec_numeric_eq:
  "spec_numeric_year_month t = None \<longleftrightarrow> re_search False year_month_re t = None"
proof (cases "re_search False year_month_re t")
  case None
  then show ?thesis by (simp add: spec_numeric_year_month_def)
next
  case (Some g)
  from numeric_found [OF Some] show ?thesis
    by (auto simp: spec_numeric_year_month_def Some group_def)
qed

lemma parse_month_year_eq:
  "parse_month_year txt fb = Inr (spec_month_year (lower txt) fb)"
proof (cases "re_search False month_year_re (lower txt)")
  case (Some g)
  from name_year_found [OF Some] show ?thesis
    by (auto simp: parse_month_year_def spec_month_year_def spec_name_year_def Some group_def)
next
  case None
  note n1 = None
  show ?thesis
  proof (cases "re_search False year_month_re (lower txt)")
    case (Some g)
    from numeric_found [OF Some] show ?thesis
      by (auto simp: parse_month_year_def spec_month_year_def spec_name_year_def
          spec_numeric_year_month_def n1 Some group_def)
  next
    case None
    show ?thesis
      by (auto simp: parse_month_year_def spec_month_year_def spec_name_year_def
          spec_numeric_year_month_def spec_bare_month_def found_def n1 None
          split: option.splits)
  qed
qed

text \<open>
  C5. Month/year extraction never fails and is the first of the three strategies that
  applies, tried in the order: month name next to a year \<^verbatim>\<open>20dd\<close>, numeric year-month, bare
  month name with the fallback year. "June 2025" gives (2025, 6), "2025-06" gives (2025, 6),
  "June" with fallback 2025 gives (2025, 6), and "June" without fallback gives (None, 6).
\<close>

theorem parse_month_year_strategies:
  "parse_month_year txt fb = Inr (spec_month_year (lower txt) fb)
   \<and> (spec_name_year (lower txt) = None \<longleftrightarrow> \<not> found month_year_re (lower txt))
   \<and> (spec_numeric_year_month (lower txt) = None \<longleftrightarrow> \<not> found year_month_re (lower txt))
   \<and> parse_month_year ''June 2025'' fb = Inr (Some 2025, Some 6)
   \<and> parse_month_year ''2025-06'' fb = Inr (Some 2025, Some 6)
   \<and> parse_month_year ''June'' (Some 2025) = Inr (Some 2025, Some 6)
   \<and> parse_month_year ''June'' None = Inr (None, Some 6)"
proof -
  have a: "spec_name_year (lower ''June 2025'') = Some (2025, 6)" by code_simp
  have b: "spec_name_year (lower ''2025-06'') = None"
    "spec_numeric_year_month (lower ''2025-06'') = Some (2025, 6)" by code_simp+
  have c: "spec_name_year (lower ''June'') = None"
    "spec_numeric_year_month (lower ''June'') = None"
    "spec_bare_month (lower ''June'') = Some 6" by code_simp+
  show ?thesis
    by (simp add: parse_month_year_eq spec_name_year_eq spec_numeric_eq found_def
        spec_month_year_def a b c del: lower_simps)
qed

lemma lower_idem [simp]: "lower (lower s) = lower s"
  by (induction s) (auto simp: lower_char_def split: option.splits dest!: map_of_SomeD)

text \<open>
  C7. When the intent is revenue-vs-budget or opex breakdown and the extraction does not give
  both a month and a year (the fallback year included), \<open>plan_and_execute\<close> returns, without
  an exception, the prompt for a month and year with no chart; the dataset is not consulted
  beyond the fallback year.
\<close>

theorem unresolved_month_year_prompt:
  assumes "spec_intent q = RevenueVsBudget \<or> spec_intent q = OpexBreakdown"
    and "\<forall>y mo. parse_month_year (lower q) (default_year_of dfs) \<noteq> Inr (Some y, Some mo)"
  shows "plan_and_execute q dfs =
           Inr \<lparr>text_of = (if spec_intent q = RevenueVsBudget then msg_month_year
                            else msg_opex_month_year),
                 chart_of = None\<rparr>"
proof -
  obtain y mo where p: "parse_month_year (lower q) (default_year_of dfs) = Inr (y, mo)"
    using parse_month_year_eq by (metis surj_pair)
  with assms(2) have "y = None \<or> mo = None" by (cases y; cases mo) auto
  then show ?thesis
    using assms(1) p
    by (auto simp: intent_dispatch answer_revenue_vs_budget_def answer_opex_def
        split: option.splits)
qed

theorem unresolved_month_year_prompt_witness:
  "spec_intent ''revenue vs budget'' = RevenueVsBudget
   \<and> parse_month_year (lower ''revenue vs budget'') (default_year_of ex_dataset)
        = Inr (Some 2025, None)
   \<and> plan_and_execute ''revenue vs budget'' ex_dataset
        = Inr \<lparr>text_of = msg_month_year, chart_of = None\<rparr>
   \<and> spec_intent ''Opex breakdown for June'' = OpexBreakdown
   \<and> parse_month_year (lower ''Opex breakdown for June'') (default_year_of ex_empty)
        = Inr (None, Some 6)
   \<and> plan_and_execute ''Opex breakdown for June'' ex_empty
        = Inr \<lparr>text_of = msg_opex_month_year, chart_of = None\<rparr>"
proof -
  have a: "spec_intent ''revenue vs budget'' = RevenueVsBudget" by code_simp
  have p: "parse_month_year (lower ''revenue vs budget'') (default_year_of ex_dataset)
           = Inr (Some 2025, None)" by code_simp
  have b: "spec_intent ''Opex breakdown for June'' = OpexBreakdown" by code_simp
  have q: "parse_month_year (lower ''Opex breakdown for June'') (default_year_of ex_empty)
           = Inr (None, Some 6)" by code_simp
  have 1: "plan_and_execute ''revenue vs budget'' ex_dataset
        = Inr \<lparr>text_of = msg_month_year, chart_of = None\<rparr>"
    using unresolved_month_year_prompt [of "''revenue vs budget''" ex_dataset] a p
    by (simp del: lower_simps)
  have 2: "plan_and_execute ''Opex breakdown for June'' ex_empty
        = Inr \<lparr>text_of = msg_opex_month_year, chart_of = None\<rparr>"
    using unresolved_month_year_prompt [of "''Opex breakdown for June''" ex_empty] b q
    by (simp del: lower_simps)
  from a p 1 b q 2 show ?thesis by (simp del: lower_simps)
qed

subsection \<open>Window extraction\<close>




lemma list_all_Space [simp]: "list_all (atom_ok ic Space) x = list_all is_space x"
  by (induction x) simp_all

















end
